theory Spec2Isabelle
  imports Complex_Main "HOL-Library.Word"
begin

section \<open>JavaScript values\<close>

subsection \<open>Strings\<close>

text \<open>
  A JavaScript string is a sequence of UTF-16 code units, so the model is a list of
  16-bit words. \<open>str\<close> writes an ASCII literal of the source as such a list.
\<close>

type_synonym jsstring = "16 word list"

definition str :: "string \<Rightarrow> jsstring" where
  "str s = map (\<lambda>c. of_nat (of_char c)) s"

definition LF :: "16 word" where
  "LF = 0xA"

text \<open>
  \<open>String.prototype.trim\<close> strips the code units of the productions WhiteSpace and
  LineTerminator from both ends: TAB, LF, VT, FF, CR, SP, NBSP, the space separators
  U+1680, U+2000..U+200A, U+202F, U+205F, U+3000, the separators U+2028 and U+2029,
  and U+FEFF.
\<close>

definition isWhiteSpace :: "16 word \<Rightarrow> bool" where
  "isWhiteSpace c \<longleftrightarrow>
     c = 0x9 \<or> c = 0xA \<or> c = 0xB \<or> c = 0xC \<or> c = 0xD \<or> c = 0x20 \<or> c = 0xA0
     \<or> c = 0x1680 \<or> (0x2000 \<le> c \<and> c \<le> 0x200A) \<or> c = 0x2028 \<or> c = 0x2029
     \<or> c = 0x202F \<or> c = 0x205F \<or> c = 0x3000 \<or> c = 0xFEFF"

definition trim :: "jsstring \<Rightarrow> jsstring" where
  "trim s = rev (dropWhile isWhiteSpace (rev (dropWhile isWhiteSpace s)))"

text \<open>
  \<open>s.split(sep)\<close> for a separator of one code unit: \<open>cur\<close> is the piece being read.
  The empty string splits into one empty piece.
\<close>

fun split_from :: "16 word \<Rightarrow> jsstring \<Rightarrow> jsstring \<Rightarrow> jsstring list" where
  "split_from sep cur [] = [cur]"
| "split_from sep cur (c # cs) =
     (if c = sep then cur # split_from sep [] cs else split_from sep (cur @ [c]) cs)"

definition split :: "16 word \<Rightarrow> jsstring \<Rightarrow> jsstring list" where
  "split sep s = split_from sep [] s"

text \<open>
  \<open>s.replace(a, b)\<close> for strings \<open>a\<close> and \<open>b\<close> of one code unit each: only the first
  occurrence is replaced.
\<close>

fun replace :: "16 word \<Rightarrow> 16 word \<Rightarrow> jsstring \<Rightarrow> jsstring" where
  "replace a b [] = []"
| "replace a b (c # cs) = (if c = a then b # cs else c # replace a b cs)"

text \<open>
  \<open>String.prototype.toLowerCase\<close> maps A..Z to a..z and leaves every other ASCII code
  unit alone. What it does to a string with a code unit outside ASCII is decided by the
  Unicode case mappings of the runtime; they are the parameter \<open>unicode\<close>.
\<close>

definition lower_ascii :: "16 word \<Rightarrow> 16 word" where
  "lower_ascii c = (if 0x41 \<le> c \<and> c \<le> 0x5A then c + 0x20 else c)"

definition toLowerCase :: "(jsstring \<Rightarrow> jsstring) \<Rightarrow> jsstring \<Rightarrow> jsstring" where
  "toLowerCase unicode s =
     (if list_all (\<lambda>c. c < 0x80) s then map lower_ascii s else unicode s)"

subsection \<open>Numbers\<close>

text \<open>
  A JavaScript number is a double: NaN, an infinity, or a finite value, which is a real
  number. \<open>less\<close> is the relational comparison of the language, undefined (\<open>None\<close>)
  when an operand is NaN; \<open>a < b\<close> and \<open>a >= b\<close> are read off it.
\<close>

datatype number = NaN | NegInfinity | Finite real | PosInfinity

fun less :: "number \<Rightarrow> number \<Rightarrow> bool option" where
  "less NaN b = None"
| "less a NaN = None"
| "less (Finite x) (Finite y) = Some (x < y)"
| "less a NegInfinity = Some False"
| "less NegInfinity b = Some True"
| "less PosInfinity b = Some False"
| "less a PosInfinity = Some True"

definition lt :: "number \<Rightarrow> number \<Rightarrow> bool" where
  "lt a b = (case less a b of None \<Rightarrow> False | Some r \<Rightarrow> r)"

definition ge :: "number \<Rightarrow> number \<Rightarrow> bool" where
  "ge a b = (case less a b of None \<Rightarrow> False | Some r \<Rightarrow> \<not> r)"

subsection \<open>Property lookup on an object literal\<close>

text \<open>
  The value of \<open>obj[key]\<close> for an object literal whose own properties are strings: the
  own property when there is one, otherwise what the literal inherits from
  \<open>Object.prototype\<close> (functions and objects, never a string), otherwise \<open>undefined\<close>.
\<close>

datatype jsvalue = String jsstring | Inherited jsstring | Undefined

definition objectPrototype :: "jsstring list" where
  "objectPrototype =
     [str ''constructor'', str ''hasOwnProperty'', str ''isPrototypeOf'',
      str ''propertyIsEnumerable'', str ''toLocaleString'', str ''toString'',
      str ''valueOf'', str ''__proto__'', str ''__defineGetter__'',
      str ''__defineSetter__'', str ''__lookupGetter__'', str ''__lookupSetter__'']"

definition get :: "(jsstring \<times> jsstring) list \<Rightarrow> jsstring \<Rightarrow> jsvalue" where
  "get obj key =
     (case map_of obj key of
        Some v \<Rightarrow> String v
      | None \<Rightarrow> if key \<in> set objectPrototype then Inherited key else Undefined)"

fun truthy :: "jsvalue \<Rightarrow> bool" where
  "truthy (String s) = (s \<noteq> [])"
| "truthy (Inherited k) = True"
| "truthy Undefined = False"

text \<open>The operator \<open>a || b\<close>.\<close>

definition or_else :: "jsvalue \<Rightarrow> jsvalue \<Rightarrow> jsvalue" where
  "or_else a b = (if truthy a then a else b)"

text \<open>\<open>a || b\<close> for an optional string \<open>a\<close>: absent and empty are both falsy.\<close>

definition or_string :: "jsstring option \<Rightarrow> jsstring \<Rightarrow> jsstring" where
  "or_string a b = (case a of None \<Rightarrow> b | Some s \<Rightarrow> if s = [] then b else s)"

section \<open>The page component\<close>

subsection \<open>State\<close>

record File =
  name :: jsstring
  type :: jsstring

datatype role = User | Assistant

record ChatMessage =
  role :: role
  content :: jsstring

text \<open>
  The state held by the \<open>useState\<close> hooks of \<open>Home\<close>. The two pages declare different
  \<open>DashboardData\<close> interfaces and no handler looks inside a report, so the report is the
  type parameter \<open>'d\<close>; \<open>null\<close> is \<open>None\<close>.
\<close>

record 'd home =
  "file" :: "File option"
  csvData :: jsstring
  rowCount :: int
  analyzing :: bool
  analysisStage :: jsstring
  dashboardData :: "'d option"
  insights :: "jsstring list"
  chatMessages :: "ChatMessage list"
  chatInput :: jsstring
  chatLoading :: bool

definition initial :: "'d home" where
  "initial = \<lparr>file = None, csvData = [], rowCount = 0, analyzing = False,
     analysisStage = [], dashboardData = None, insights = [], chatMessages = [],
     chatInput = [], chatLoading = False\<rparr>"

text \<open>
  What a handler starts besides updating the state. \<open>SetTimeout label ms\<close> is
  \<open>setTimeout(() => setAnalysisStage(label), ms)\<close>.
\<close>

datatype effect =
    PreventDefault
  | ReadAsText File
  | SetTimeout jsstring nat
  | CallAIAgent jsstring jsstring
  | ConsoleError jsstring

subsection \<open>The agent client\<close>

text \<open>
  Modelled from the spec: the result type of \<open>callAIAgent\<close>, which is imported from
  \<open>@/lib/aiAgent\<close>: \<open>{success: bool, response?: {status: string, result: object}}\<close>.
  The handlers cast \<open>result\<close> to \<open>ManagerAgentResponse\<close> and guard \<open>dashboard_data\<close>,
  \<open>insights\<close> and \<open>query_response\<close> against absence, so the three are optional here.
  The awaited call either fulfils with such a result or rejects.
\<close>

record 'd ManagerAgentResponse =
  workflow_status :: jsstring
  dashboard_data :: "'d option"
  query_response :: "jsstring option"
  response_insights :: "jsstring list option"

record 'd agent_response =
  status :: jsstring
  result :: "'d ManagerAgentResponse"

record 'd agent_result =
  success :: bool
  response :: "'d agent_response option"

datatype 'd settled = Fulfilled "'d agent_result" | Rejected

datatype error = Rejection | TypeError

definition FINOS_MANAGER_AGENT_ID :: jsstring where
  "FINOS_MANAGER_AGENT_ID = str ''6985a70a301c62c7ca2c7e05''"

subsection \<open>File intake\<close>

text \<open>
  \<^verbatim>\<open>const parseCSV = (text: string): number => {
    const lines = text.trim().split('\n')
    return lines.length - 1 // Subtract header row
  }\<close>
\<close>

definition parseCSV :: "jsstring \<Rightarrow> int" where
  "parseCSV text = (let lines = split LF (trim text) in int (length lines) - 1)"

text \<open>
  \<open>handleFileChange\<close> takes \<open>e.target.files?.[0]\<close>, \<open>handleDrop\<close> takes
  \<open>e.dataTransfer.files[0]\<close>; either is absent when the list is empty. An accepted file
  is stored and handed to a \<open>FileReader\<close>; \<open>reader_onload\<close> is the callback that the
  reader runs with the decoded text.
\<close>

definition reader_onload :: "jsstring \<Rightarrow> 'd home \<Rightarrow> 'd home" where
  "reader_onload text s = (let rows = parseCSV text in s\<lparr>csvData := text, rowCount := rows\<rparr>)"

definition handleFileChange :: "File option \<Rightarrow> 'd home \<Rightarrow> 'd home \<times> effect list" where
  "handleFileChange selectedFile s =
     (case selectedFile of
        None \<Rightarrow> (s, [])
      | Some f \<Rightarrow>
          if type f = str ''text/csv'' then (s\<lparr>file := Some f\<rparr>, [ReadAsText f])
          else (s, []))"

definition handleDrop :: "File option \<Rightarrow> 'd home \<Rightarrow> 'd home \<times> effect list" where
  "handleDrop droppedFile s =
     (case droppedFile of
        None \<Rightarrow> (s, [PreventDefault])
      | Some f \<Rightarrow>
          if type f = str ''text/csv''
          then (s\<lparr>file := Some f\<rparr>, [PreventDefault, ReadAsText f])
          else (s, [PreventDefault]))"

subsection \<open>Analysis\<close>

text \<open>
  \<open>analyzeTransactions\<close> runs up to its \<open>await\<close>: the guard, the two setters, the two
  timers and the call. \<open>analyzeTransactions_try\<close> is the rest of the \<open>try\<close> block, run
  when the call has settled, with \<open>Inl\<close> for what it throws;
  \<open>analyzeTransactions_settled\<close> adds \<open>catch\<close> and \<open>finally\<close>.
\<close>

definition analyzeTransactions :: "'d home \<Rightarrow> 'd home \<times> effect list" where
  "analyzeTransactions s =
     (if csvData s = [] then (s, [])
      else
        (s\<lparr>analyzing := True, analysisStage := str ''Cleaning data...''\<rparr>,
         [SetTimeout (str ''Categorizing transactions...'') 1000,
          SetTimeout (str ''Calculating financial score...'') 2000,
          CallAIAgent (str ''Analyze these transaction data:'' @ [LF, LF] @ csvData s)
            FINOS_MANAGER_AGENT_ID]))"

definition analyzeTransactions_try :: "'d settled \<Rightarrow> 'd home \<Rightarrow> error + 'd home" where
  "analyzeTransactions_try r s =
     (case r of
        Rejected \<Rightarrow> Inl Rejection
      | Fulfilled res \<Rightarrow>
          if success res then
            (case response res of
               None \<Rightarrow> Inl TypeError
             | Some resp \<Rightarrow>
                 if status resp = str ''success'' then
                   (let managerResponse = result resp in
                    case dashboard_data managerResponse of
                      Some d \<Rightarrow>
                        Inr (s\<lparr>dashboardData := Some d,
                               insights := (case response_insights managerResponse of
                                              Some i \<Rightarrow> i | None \<Rightarrow> [])\<rparr>)
                    | None \<Rightarrow> Inr s)
                 else Inr s)
          else Inr s)"

definition analyzeTransactions_settled :: "'d settled \<Rightarrow> 'd home \<Rightarrow> 'd home \<times> effect list" where
  "analyzeTransactions_settled r s =
     (case analyzeTransactions_try r s of
        Inl e \<Rightarrow> (s\<lparr>analyzing := False, analysisStage := []\<rparr>, [ConsoleError (str ''Analysis error:'')])
      | Inr s' \<Rightarrow> (s'\<lparr>analyzing := False, analysisStage := []\<rparr>, []))"

subsection \<open>Chat\<close>

text \<open>
  \<open>handleSendMessage\<close> runs up to its \<open>await\<close>; \<open>handleSendMessage_try\<close> is the rest of
  the \<open>try\<close> block and \<open>handleSendMessage_settled\<close> adds \<open>catch\<close> and \<open>finally\<close>.
  The transcript is updated with \<open>setChatMessages((prev) => [...prev, m])\<close>, which
  appends to the transcript of the state it runs in.
\<close>

definition handleSendMessage :: "'d home \<Rightarrow> 'd home \<times> effect list" where
  "handleSendMessage s =
     (if trim (chatInput s) = [] \<or> dashboardData s = None then (s, [])
      else
        (let userMessage = \<lparr>role = User, content = chatInput s\<rparr> in
         (s\<lparr>chatMessages := chatMessages s @ [userMessage], chatInput := [],
             chatLoading := True\<rparr>,
          [CallAIAgent
             (str ''Based on the analyzed transaction data, answer this query: '' @ chatInput s)
             FINOS_MANAGER_AGENT_ID])))"

definition errorMessage :: ChatMessage where
  "errorMessage =
     \<lparr>role = Assistant, content = str ''Sorry, I encountered an error processing your query.''\<rparr>"

definition handleSendMessage_try :: "'d settled \<Rightarrow> 'd home \<Rightarrow> error + 'd home" where
  "handleSendMessage_try r s =
     (case r of
        Rejected \<Rightarrow> Inl Rejection
      | Fulfilled res \<Rightarrow>
          if success res then
            (case response res of
               None \<Rightarrow> Inl TypeError
             | Some resp \<Rightarrow>
                 if status resp = str ''success'' then
                   (let managerResponse = result resp;
                        responseText = or_string (query_response managerResponse)
                                         (str ''Analysis complete.'');
                        assistantMessage = \<lparr>role = Assistant, content = responseText\<rparr>
                    in Inr (s\<lparr>chatMessages := chatMessages s @ [assistantMessage]\<rparr>))
                 else Inr (s\<lparr>chatMessages := chatMessages s @ [errorMessage]\<rparr>))
          else Inr (s\<lparr>chatMessages := chatMessages s @ [errorMessage]\<rparr>))"

definition handleSendMessage_settled :: "'d settled \<Rightarrow> 'd home \<Rightarrow> 'd home \<times> effect list" where
  "handleSendMessage_settled r s =
     (case handleSendMessage_try r s of
        Inl e \<Rightarrow> (s\<lparr>chatLoading := False\<rparr>, [ConsoleError (str ''Chat error:'')])
      | Inr s' \<Rightarrow> (s'\<lparr>chatLoading := False\<rparr>, []))"

text \<open>
  A whole invocation with no other event between the call and its settlement: the
  second half runs only when the first half made the call.
\<close>

fun calls :: "effect \<Rightarrow> bool" where
  "calls (CallAIAgent m a) = True"
| "calls e = False"

definition invoke ::
  "('d home \<Rightarrow> 'd home \<times> effect list) \<Rightarrow> ('d settled \<Rightarrow> 'd home \<Rightarrow> 'd home \<times> effect list)
     \<Rightarrow> 'd settled \<Rightarrow> 'd home \<Rightarrow> 'd home" where
  "invoke start settled r s =
     (case start s of (s1, es) \<Rightarrow> if list_ex calls es then fst (settled r s1) else s1)"

subsection \<open>Colours\<close>

text \<open>
  \<^verbatim>\<open>const getScoreColor = (score: number): string => {
    if (score >= 75) return '#00bfa5'
    if (score >= 50) return '#ffd700'
    return '#ff5252'
  }\<close>
\<close>

definition getScoreColor :: "number \<Rightarrow> jsstring" where
  "getScoreColor score =
     (if ge score (Finite 75) then str ''#00bfa5''
      else if ge score (Finite 50) then str ''#ffd700''
      else str ''#ff5252'')"

text \<open>
  \<^verbatim>\<open>const getCategoryColor = (category: string): string => {
    const colors: { [key: string]: string } = { dining: '#ff6b6b', ... }
    return colors[category.toLowerCase().replace(' ', '_')] || '#95a5a6'
  }\<close>
\<close>

definition colors :: "(jsstring \<times> jsstring) list" where
  "colors =
     [(str ''dining'', str ''#ff6b6b''),
      (str ''shopping'', str ''#4ecdc4''),
      (str ''bill_payments'', str ''#45b7d1''),
      (str ''travel'', str ''#96ceb4''),
      (str ''investments'', str ''#1a237e''),
      (str ''others'', str ''#95a5a6'')]"

definition getCategoryColor :: "(jsstring \<Rightarrow> jsstring) \<Rightarrow> jsstring \<Rightarrow> jsvalue" where
  "getCategoryColor unicode category =
     or_else (get colors (replace 0x20 0x5F (toLowerCase unicode category)))
       (String (str ''#95a5a6''))"

section \<open>Texts made of lines\<close>

text \<open>
  The text of a header line \<open>h\<close> followed by the data lines \<open>ds\<close>, each on a line of
  its own (what \<open>[h, ...ds].join('\n')\<close> builds), and the lines that \<open>trim\<close> would
  delete whole.
\<close>

definition csv_text :: "jsstring \<Rightarrow> jsstring list \<Rightarrow> jsstring" where
  "csv_text h ds = h @ concat (map (\<lambda>d. LF # d) ds)"

definition blank :: "jsstring \<Rightarrow> bool" where
  "blank s = list_all isWhiteSpace s"

section \<open>Example values\<close>

text \<open>
  Concrete inputs for the instances below. A report is written as the list of its
  numeric fields, which is enough to tell two reports apart; \<open>succeeded m\<close> is the
  result of an agent call that came back with \<open>success: true\<close>, status
  \<open>'success'\<close> and payload \<open>m\<close>.
\<close>

type_synonym report = "(string \<times> number) list"

definition report_jan :: report where
  "report_jan = [(''financial_alignment_score'', Finite 82), (''total_transactions'', Finite 2)]"

definition report_feb :: report where
  "report_feb = [(''financial_alignment_score'', Finite 47), (''total_transactions'', Finite 9)]"

definition csv_jan :: jsstring where
  "csv_jan = csv_text (str ''date,merchant,amount'')
     [str ''2024-01-05,Cafe,12.5'', str ''2024-01-06,Rail,40'']"

definition analysed :: "report home" where
  "analysed = initial\<lparr>file := Some \<lparr>name = str ''jan.csv'', type = str ''text/csv''\<rparr>,
     csvData := csv_jan, rowCount := 2, dashboardData := Some report_jan,
     insights := [str ''Dining is 40% of spend'']\<rparr>"

definition succeeded :: "'d ManagerAgentResponse \<Rightarrow> 'd settled" where
  "succeeded m = Fulfilled \<lparr>success = True, response = Some \<lparr>status = str ''success'', result = m\<rparr>\<rparr>"

section \<open>Properties of trimming and splitting\<close>

lemma length_split_from:
  "length (split_from sep cur s) = Suc (length (filter (\<lambda>c. c = sep) s))"
  by (induction s arbitrary: cur) simp_all

lemma parseCSV_count: "parseCSV text = int (length (filter (\<lambda>c. c = LF) (trim text)))"
  by (simp add: parseCSV_def split_def length_split_from)

lemma trim_prepend_ws: "list_all isWhiteSpace w \<Longrightarrow> trim (w @ t) = trim t"
  by (simp add: trim_def list_all_iff)

lemma trim_append_ws:
  assumes "list_all isWhiteSpace w"
  shows "trim (t @ w) = trim t"
proof (cases "list_all isWhiteSpace t")
  case True
  with assms have "\<forall>x\<in>set (t @ w). isWhiteSpace x" and "\<forall>x\<in>set t. isWhiteSpace x"
    by (auto simp: list_all_iff)
  then have "dropWhile isWhiteSpace (t @ w) = []" and "dropWhile isWhiteSpace t = []"
    by (simp_all only: dropWhile_eq_Nil_conv)
  then show ?thesis by (simp only: trim_def)
next
  case False
  then obtain x where "x \<in> set t" and "\<not> isWhiteSpace x"
    by (auto simp: list_all_iff)
  then have "dropWhile isWhiteSpace (t @ w) = dropWhile isWhiteSpace t @ w"
    by (rule dropWhile_append1)
  moreover have "dropWhile isWhiteSpace (rev w @ rev (dropWhile isWhiteSpace t))
      = dropWhile isWhiteSpace (rev (dropWhile isWhiteSpace t))"
    using assms by (intro dropWhile_append2) (simp add: list_all_iff)
  ultimately show ?thesis
    by (simp add: trim_def)
qed

text \<open>A string is what \<open>trim\<close> keeps, between the two runs of white space it strips.\<close>

lemma trim_decompose:
  "s = takeWhile isWhiteSpace s @ trim s
         @ rev (takeWhile isWhiteSpace (rev (dropWhile isWhiteSpace s)))"
proof -
  let ?u = "dropWhile isWhiteSpace s"
  have "rev (takeWhile isWhiteSpace (rev ?u) @ dropWhile isWhiteSpace (rev ?u)) = rev (rev ?u)"
    by (simp only: takeWhile_dropWhile_id)
  then have "?u = trim s @ rev (takeWhile isWhiteSpace (rev ?u))"
    by (simp only: trim_def rev_append rev_rev_ident)
  moreover have "s = takeWhile isWhiteSpace s @ ?u" by simp
  ultimately show ?thesis by metis
qed

lemma count_trim:
  assumes "sep \<notin> set (takeWhile isWhiteSpace s)"
    and "sep \<notin> set (takeWhile isWhiteSpace (rev (dropWhile isWhiteSpace s)))"
  shows "length (filter (\<lambda>c. c = sep) (trim s)) = length (filter (\<lambda>c. c = sep) s)"
proof -
  let ?f = "filter (\<lambda>c. c = sep)"
  have a: "?f (takeWhile isWhiteSpace s) = []"
    using assms(1) by (auto simp: filter_empty_conv)
  have b: "?f (rev (takeWhile isWhiteSpace (rev (dropWhile isWhiteSpace s)))) = []"
    using assms(2) by (auto simp: filter_empty_conv)
  have "?f s = ?f (takeWhile isWhiteSpace s @ trim s
         @ rev (takeWhile isWhiteSpace (rev (dropWhile isWhiteSpace s))))"
    using trim_decompose [of s] by simp
  also have "\<dots> = ?f (trim s)"
    using a b by (simp only: filter_append append_Nil append_Nil2)
  finally show ?thesis by simp
qed

lemma count_csv_text:
  "LF \<notin> set h \<Longrightarrow> \<forall>d\<in>set ds. LF \<notin> set d \<Longrightarrow>
   length (filter (\<lambda>c. c = LF) (csv_text h ds)) = length ds"
proof (induction ds rule: rev_induct)
  case Nil
  then show ?case by (auto simp: csv_text_def filter_empty_conv)
next
  case (snoc d ds)
  then have "filter (\<lambda>c. c = LF) d = []" by (auto simp: filter_empty_conv)
  with snoc show ?case by (simp add: csv_text_def)
qed

lemma takeWhile_set_subset: "x \<in> set (takeWhile P xs) \<Longrightarrow> x \<in> set xs"
  by (rule set_takeWhileD [THEN conjunct1])

lemma trim_keeps_newlines:
  assumes h: "LF \<notin> set h" and ds: "\<forall>d\<in>set ds. LF \<notin> set d"
    and nb: "ds \<noteq> [] \<longrightarrow> \<not> blank h \<and> \<not> blank (last ds)"
  shows "length (filter (\<lambda>c. c = LF) (trim (csv_text h ds))) = length ds"
proof (cases "ds = []")
  case True
  have "set (trim h) \<subseteq> set h"
    unfolding trim_def by (auto dest!: set_dropWhileD)
  with h have "filter (\<lambda>c. c = LF) (trim h) = []"
    by (auto simp: filter_empty_conv)
  with True show ?thesis by (simp add: csv_text_def)
next
  case False
  with nb obtain x y where x: "x \<in> set h" "\<not> isWhiteSpace x"
    and y: "y \<in> set (last ds)" "\<not> isWhiteSpace y"
    by (auto simp: blank_def list_all_iff)
  let ?m = "concat (map (\<lambda>d. LF # d) (butlast ds)) @ [LF]"
  have "csv_text h (butlast ds @ [last ds]) = h @ ?m @ last ds"
    by (simp add: csv_text_def)
  with False have t: "csv_text h ds = h @ ?m @ last ds" by simp
  have "takeWhile isWhiteSpace (csv_text h ds) = takeWhile isWhiteSpace h"
    unfolding t using x by (rule takeWhile_append1)
  then have pre: "LF \<notin> set (takeWhile isWhiteSpace (csv_text h ds))"
    using h takeWhile_set_subset by fastforce
  have "dropWhile isWhiteSpace (csv_text h ds) = dropWhile isWhiteSpace h @ ?m @ last ds"
    unfolding t using x by (rule dropWhile_append1)
  then have "rev (dropWhile isWhiteSpace (csv_text h ds))
      = rev (last ds) @ rev (dropWhile isWhiteSpace h @ ?m)"
    by simp
  moreover have "takeWhile isWhiteSpace (rev (last ds) @ rev (dropWhile isWhiteSpace h @ ?m))
      = takeWhile isWhiteSpace (rev (last ds))"
    using y by (intro takeWhile_append1 [of y]) simp_all
  ultimately have "takeWhile isWhiteSpace (rev (dropWhile isWhiteSpace (csv_text h ds)))
      = takeWhile isWhiteSpace (rev (last ds))"
    by simp
  moreover have "LF \<notin> set (last ds)" using ds False by simp
  ultimately have suf:
    "LF \<notin> set (takeWhile isWhiteSpace (rev (dropWhile isWhiteSpace (csv_text h ds))))"
    using takeWhile_set_subset by fastforce
  show ?thesis
    by (simp add: count_trim [OF pre suf] count_csv_text [OF h ds])
qed

section \<open>The row count\<close>

text \<open>
  Claim C1, as the spec states it: a text of one header line and N data lines has row
  count N, and the empty text has row count -1. The second half fails: trimming the
  empty text leaves the empty text, which splits into one empty piece, so the count is
  1 - 1 = 0.
\<close>

theorem parseCSV_empty_is_not_minus_one: "parseCSV [] \<noteq> - 1"
  by (simp add: parseCSV_def split_def trim_def)

text \<open>
  Claim C1, amended: let the text be a header line \<open>h\<close> followed by the N data lines
  \<open>ds\<close>, separated by newlines, no line containing a newline itself, and, when there
  is a data line at all, the header and the last data line not made of white space
  only (so that trimming deletes no line). Then \<open>parseCSV\<close> returns N, with or without
  a newline after the last line, and that is the row count stored when the file has
  been read. For the empty text the row count is 0.
\<close>

theorem parseCSV_counts_data_lines:
  assumes "LF \<notin> set h" and "\<forall>d\<in>set ds. LF \<notin> set d"
    and "ds \<noteq> [] \<longrightarrow> \<not> blank h \<and> \<not> blank (last ds)"
  shows "parseCSV (csv_text h ds) = int (length ds)
    \<and> parseCSV (csv_text h ds @ [LF]) = int (length ds)
    \<and> rowCount (reader_onload (csv_text h ds) s) = int (length ds)
    \<and> parseCSV [] = 0"
proof -
  have rows: "parseCSV (csv_text h ds) = int (length ds)"
    by (simp only: parseCSV_count trim_keeps_newlines [OF assms])
  have "list_all isWhiteSpace [LF]"
    by (simp add: isWhiteSpace_def LF_def)
  then have "trim (csv_text h ds @ [LF]) = trim (csv_text h ds)"
    by (rule trim_append_ws)
  then have "parseCSV (csv_text h ds @ [LF]) = parseCSV (csv_text h ds)"
    by (simp add: parseCSV_def)
  moreover have "parseCSV [] = 0"
    by (simp add: parseCSV_def split_def trim_def)
  ultimately show ?thesis
    using rows by (simp add: reader_onload_def)
qed

theorem parseCSV_counts_data_lines_witness:
  "LF \<notin> set (str ''date,merchant,amount'')
   \<and> LF \<notin> set (str ''2024-01-05,Cafe,12.5'') \<and> LF \<notin> set (str ''2024-01-06,Rail,40'')
   \<and> \<not> blank (str ''date,merchant,amount'') \<and> \<not> blank (str ''2024-01-06,Rail,40'')
   \<and> parseCSV (csv_text (str ''date,merchant,amount'')
        [str ''2024-01-05,Cafe,12.5'', str ''2024-01-06,Rail,40'']) = 2
   \<and> parseCSV (csv_text (str ''date,merchant,amount'')
        [str ''2024-01-05,Cafe,12.5'', str ''2024-01-06,Rail,40''] @ [LF]) = 2
   \<and> rowCount (reader_onload (csv_text (str ''date,merchant,amount'')
        [str ''2024-01-05,Cafe,12.5'', str ''2024-01-06,Rail,40'']) (initial :: unit home)) = 2"
  using parseCSV_counts_data_lines [of "str ''date,merchant,amount''"
      "[str ''2024-01-05,Cafe,12.5'', str ''2024-01-06,Rail,40'']" "initial :: unit home"]
  by (simp add: str_def LF_def blank_def isWhiteSpace_def)

text \<open>
  Claim C9: white space in front of a text or behind it does not change the row count,
  since the text is trimmed before it is split; in particular a newline at the end
  does not.
\<close>

theorem parseCSV_ignores_outer_whitespace:
  assumes "blank w1" and "blank w2"
  shows "parseCSV (w1 @ t @ w2) = parseCSV t \<and> parseCSV (t @ [LF]) = parseCSV t"
proof -
  have "list_all isWhiteSpace [LF]"
    by (simp add: isWhiteSpace_def LF_def)
  then have "trim (t @ [LF]) = trim t"
    by (rule trim_append_ws)
  moreover have "trim (w1 @ t @ w2) = trim t"
    using assms by (simp add: blank_def trim_prepend_ws trim_append_ws)
  ultimately show ?thesis
    by (simp add: parseCSV_def)
qed

theorem parseCSV_ignores_outer_whitespace_witness:
  "blank [0x20, 0x9] \<and> blank [0xD, LF, LF]
   \<and> parseCSV ([0x20, 0x9] @ csv_text (str ''date,amount'') [str ''2024-01-05,12''] @ [0xD, LF, LF])
       = parseCSV (csv_text (str ''date,amount'') [str ''2024-01-05,12''])
   \<and> parseCSV (csv_text (str ''date,amount'') [str ''2024-01-05,12''] @ [LF])
       = parseCSV (csv_text (str ''date,amount'') [str ''2024-01-05,12''])"
  using parseCSV_ignores_outer_whitespace [of "[0x20, 0x9]" "[0xD, LF, LF]"
      "csv_text (str ''date,amount'') [str ''2024-01-05,12'']"]
  by (simp add: blank_def isWhiteSpace_def LF_def)

section \<open>Colours\<close>

text \<open>
  Claim C6: a score of at least 75 is shown in green (\<open>#00bfa5\<close>), a score of at
  least 50 and below 75 in yellow (\<open>#ffd700\<close>), a score below 50 in red
  (\<open>#ff5252\<close>); 75 and 50 belong to the higher band. The comparisons are those of
  the language, so the statement covers the infinities too, and a finite score is
  compared as the real number it is.
\<close>

theorem getScoreColor_bands:
  "(ge score (Finite 75) \<longrightarrow> getScoreColor score = str ''#00bfa5'')
   \<and> (ge score (Finite 50) \<and> lt score (Finite 75) \<longrightarrow> getScoreColor score = str ''#ffd700'')
   \<and> (lt score (Finite 50) \<longrightarrow> getScoreColor score = str ''#ff5252'')
   \<and> getScoreColor (Finite x) =
        (if 75 \<le> x then str ''#00bfa5'' else if 50 \<le> x then str ''#ffd700'' else str ''#ff5252'')"
  by (cases score) (simp_all add: getScoreColor_def ge_def lt_def)

theorem getScoreColor_bands_witness:
  "ge (Finite 75) (Finite 75) \<and> getScoreColor (Finite 75) = str ''#00bfa5''
   \<and> ge (Finite 50) (Finite 50) \<and> lt (Finite 50) (Finite 75)
   \<and> getScoreColor (Finite 50) = str ''#ffd700''
   \<and> lt (Finite 49.5) (Finite 50) \<and> getScoreColor (Finite 49.5) = str ''#ff5252''
   \<and> ge PosInfinity (Finite 75) \<and> getScoreColor PosInfinity = str ''#00bfa5''
   \<and> lt NegInfinity (Finite 50) \<and> getScoreColor NegInfinity = str ''#ff5252''"
  using getScoreColor_bands [of "Finite 75"] getScoreColor_bands [of "Finite 50"]
    getScoreColor_bands [of "Finite 49.5"] getScoreColor_bands [of PosInfinity]
    getScoreColor_bands [of NegInfinity]
  by (simp add: ge_def lt_def)

text \<open>
  Claim C7, as the spec states it: each of the six category keys has a fixed colour of
  its own, and every key that is not one of the six gets the default colour. The
  second half fails: the key is lower-cased and its first space replaced by an
  underscore before the lookup, so \<open>Dining\<close>, which is not one of the six keys, gets
  the colour of \<open>dining\<close>. (On an ASCII key the case mappings of the runtime are not
  consulted; the instances pass \<open>id\<close> for them.)
\<close>

theorem getCategoryColor_Dining_counterexample:
  "str ''Dining'' \<notin> set (map fst colors)
   \<and> getCategoryColor id (str ''Dining'') \<noteq> String (str ''#95a5a6'')"
  by (simp add: getCategoryColor_def toLowerCase_def lower_ascii_def colors_def get_def
      or_else_def str_def)

lemma colors_nonempty: "map_of colors k = Some v \<Longrightarrow> v \<noteq> []"
  by (auto simp: colors_def str_def split: if_splits)

text \<open>
  Claim C7, amended: each of the six category keys (dining, shopping, bill_payments,
  travel, investments, others) has a fixed colour, and the six colours are pairwise
  distinct. A key is looked up in its normalised form, lower-cased and with its first
  space replaced by an underscore: when that form is one of the six keys the colour of
  that key is returned, and when it is neither one of the six keys nor the name of a
  property inherited from \<open>Object.prototype\<close> the default colour \<open>#95a5a6\<close> is
  returned.
\<close>

theorem getCategoryColor_by_normalised_key:
  "getCategoryColor unicode (str ''dining'') = String (str ''#ff6b6b'')
   \<and> getCategoryColor unicode (str ''shopping'') = String (str ''#4ecdc4'')
   \<and> getCategoryColor unicode (str ''bill_payments'') = String (str ''#45b7d1'')
   \<and> getCategoryColor unicode (str ''travel'') = String (str ''#96ceb4'')
   \<and> getCategoryColor unicode (str ''investments'') = String (str ''#1a237e'')
   \<and> getCategoryColor unicode (str ''others'') = String (str ''#95a5a6'')
   \<and> distinct (map (getCategoryColor unicode)
        [str ''dining'', str ''shopping'', str ''bill_payments'', str ''travel'',
         str ''investments'', str ''others''])
   \<and> (map_of colors (replace 0x20 0x5F (toLowerCase unicode category)) = Some v
        \<longrightarrow> getCategoryColor unicode category = String v)
   \<and> (replace 0x20 0x5F (toLowerCase unicode category) \<notin> set (map fst colors)
        \<and> replace 0x20 0x5F (toLowerCase unicode category) \<notin> set objectPrototype
        \<longrightarrow> getCategoryColor unicode category = String (str ''#95a5a6''))"
proof -
  have six: "getCategoryColor unicode (str ''dining'') = String (str ''#ff6b6b'')"
    "getCategoryColor unicode (str ''shopping'') = String (str ''#4ecdc4'')"
    "getCategoryColor unicode (str ''bill_payments'') = String (str ''#45b7d1'')"
    "getCategoryColor unicode (str ''travel'') = String (str ''#96ceb4'')"
    "getCategoryColor unicode (str ''investments'') = String (str ''#1a237e'')"
    "getCategoryColor unicode (str ''others'') = String (str ''#95a5a6'')"
    by (simp_all add: getCategoryColor_def toLowerCase_def lower_ascii_def colors_def get_def
        or_else_def str_def)
  have d: "distinct (map (getCategoryColor unicode)
        [str ''dining'', str ''shopping'', str ''bill_payments'', str ''travel'',
         str ''investments'', str ''others''])"
    by (simp add: six) (simp add: str_def)
  have hit: "getCategoryColor unicode category = String v"
    if "map_of colors (replace 0x20 0x5F (toLowerCase unicode category)) = Some v"
    using that colors_nonempty [OF that] by (simp add: getCategoryColor_def get_def or_else_def)
  have miss: "getCategoryColor unicode category = String (str ''#95a5a6'')"
    if "replace 0x20 0x5F (toLowerCase unicode category) \<notin> set (map fst colors)"
      and "replace 0x20 0x5F (toLowerCase unicode category) \<notin> set objectPrototype"
  proof -
    from that(1) have "map_of colors (replace 0x20 0x5F (toLowerCase unicode category)) = None"
      by (simp add: map_of_eq_None_iff)
    with that(2) show ?thesis
      by (simp add: getCategoryColor_def get_def or_else_def)
  qed
  from six d hit miss show ?thesis by blast
qed

theorem getCategoryColor_by_normalised_key_witness:
  "map_of colors (replace 0x20 0x5F (toLowerCase id (str ''Bill Payments''))) = Some (str ''#45b7d1'')
   \<and> getCategoryColor id (str ''Bill Payments'') = String (str ''#45b7d1'')
   \<and> replace 0x20 0x5F (toLowerCase id (str ''Crypto'')) \<notin> set (map fst colors)
   \<and> replace 0x20 0x5F (toLowerCase id (str ''Crypto'')) \<notin> set objectPrototype
   \<and> getCategoryColor id (str ''Crypto'') = String (str ''#95a5a6'')"
  using getCategoryColor_by_normalised_key [of id "str ''Bill Payments''" "str ''#45b7d1''"]
    getCategoryColor_by_normalised_key [of id "str ''Crypto''"]
  by (simp add: toLowerCase_def lower_ascii_def colors_def objectPrototype_def str_def)

section \<open>File intake\<close>

text \<open>
  Claim C8: a selected or dropped file whose type is not \<open>text/csv\<close> changes nothing:
  the stored file, the CSV text and the row count stay as they were, no reader is
  started and nothing is logged. The same holds when the event carries no file. (A
  drop still prevents the browser's default action.)
\<close>

theorem non_csv_file_is_ignored:
  assumes "type f \<noteq> str ''text/csv''"
  shows "handleFileChange (Some f) s = (s, []) \<and> handleDrop (Some f) s = (s, [PreventDefault])
    \<and> handleFileChange None s = (s, []) \<and> handleDrop None s = (s, [PreventDefault])"
  using assms by (simp add: handleFileChange_def handleDrop_def)

theorem non_csv_file_is_ignored_witness:
  "type \<lparr>name = str ''notes.csv'', type = str ''application/vnd.ms-excel''\<rparr> \<noteq> str ''text/csv''
   \<and> handleFileChange (Some \<lparr>name = str ''notes.csv'', type = str ''application/vnd.ms-excel''\<rparr>)
        ((initial :: unit home)\<lparr>file := Some \<lparr>name = str ''jan.csv'', type = str ''text/csv''\<rparr>,
           csvData := csv_text (str ''date,amount'') [str ''2024-01-05,12''], rowCount := 1\<rparr>)
      = ((initial :: unit home)\<lparr>file := Some \<lparr>name = str ''jan.csv'', type = str ''text/csv''\<rparr>,
           csvData := csv_text (str ''date,amount'') [str ''2024-01-05,12''], rowCount := 1\<rparr>, [])
   \<and> handleDrop (Some \<lparr>name = str ''notes.csv'', type = str ''application/vnd.ms-excel''\<rparr>)
        ((initial :: unit home)\<lparr>file := Some \<lparr>name = str ''jan.csv'', type = str ''text/csv''\<rparr>,
           csvData := csv_text (str ''date,amount'') [str ''2024-01-05,12''], rowCount := 1\<rparr>)
      = ((initial :: unit home)\<lparr>file := Some \<lparr>name = str ''jan.csv'', type = str ''text/csv''\<rparr>,
           csvData := csv_text (str ''date,amount'') [str ''2024-01-05,12''], rowCount := 1\<rparr>,
         [PreventDefault])"
  using non_csv_file_is_ignored
    [of "\<lparr>name = str ''notes.csv'', type = str ''application/vnd.ms-excel''\<rparr>"
      "(initial :: unit home)\<lparr>file := Some \<lparr>name = str ''jan.csv'', type = str ''text/csv''\<rparr>,
           csvData := csv_text (str ''date,amount'') [str ''2024-01-05,12''], rowCount := 1\<rparr>"]
  by (simp add: str_def)

section \<open>Analysis\<close>

lemma invoke_analyzeTransactions:
  "csvData s \<noteq> [] \<Longrightarrow>
   invoke analyzeTransactions analyzeTransactions_settled r s =
     fst (analyzeTransactions_settled r
       (s\<lparr>analyzing := True, analysisStage := str ''Cleaning data...''\<rparr>))"
  by (simp add: invoke_def analyzeTransactions_def)

text \<open>
  Claim C10: with no CSV text loaded, \<open>analyzeTransactions\<close> returns at its guard: the
  state is unchanged and neither the agent call nor a timer is started, so nothing
  runs later either.
\<close>

theorem analyzeTransactions_without_csv:
  assumes "csvData s = []"
  shows "analyzeTransactions s = (s, [])
    \<and> invoke analyzeTransactions analyzeTransactions_settled r s = s"
  using assms by (simp add: analyzeTransactions_def invoke_def)

theorem analyzeTransactions_without_csv_witness:
  "csvData ((initial :: unit home)\<lparr>file := Some \<lparr>name = str ''jan.csv'', type = str ''text/csv''\<rparr>\<rparr>) = []
   \<and> analyzeTransactions ((initial :: unit home)\<lparr>file := Some \<lparr>name = str ''jan.csv'', type = str ''text/csv''\<rparr>\<rparr>)
       = ((initial :: unit home)\<lparr>file := Some \<lparr>name = str ''jan.csv'', type = str ''text/csv''\<rparr>\<rparr>, [])
   \<and> invoke analyzeTransactions analyzeTransactions_settled Rejected
         ((initial :: unit home)\<lparr>file := Some \<lparr>name = str ''jan.csv'', type = str ''text/csv''\<rparr>\<rparr>)
       = (initial :: unit home)\<lparr>file := Some \<lparr>name = str ''jan.csv'', type = str ''text/csv''\<rparr>\<rparr>"
  using analyzeTransactions_without_csv
    [of "(initial :: unit home)\<lparr>file := Some \<lparr>name = str ''jan.csv'', type = str ''text/csv''\<rparr>\<rparr>" Rejected]
  by (simp add: initial_def)

lemma analyzeTransactions_try_failed:
  assumes "r = Rejected \<or> (\<exists>res. r = Fulfilled res \<and> \<not> success res)
     \<or> (\<exists>res resp. r = Fulfilled res \<and> response res = Some resp \<and> status resp \<noteq> str ''success'')"
  shows "analyzeTransactions_try r t = Inl Rejection \<or> analyzeTransactions_try r t = Inr t"
proof -
  consider "r = Rejected" | res where "r = Fulfilled res" "\<not> success res"
    | res resp where "r = Fulfilled res" "response res = Some resp"
        "status resp \<noteq> str ''success''"
    using assms by blast
  then show ?thesis
  proof cases
    case 1
    then show ?thesis by (simp add: analyzeTransactions_try_def)
  next
    case 2
    then show ?thesis by (simp add: analyzeTransactions_try_def)
  next
    case 3
    then show ?thesis by (simp add: analyzeTransactions_try_def)
  qed
qed

text \<open>
  Claim C3: when the agent call of an analysis rejects, or returns \<open>success: false\<close>,
  or returns a status other than \<open>'success'\<close>, the report and the insights list are
  what they were and the loading flag is cleared. This holds for the code that runs
  after the call from any state \<open>t\<close>, and for the whole invocation from a state \<open>s\<close>
  with CSV text loaded.
\<close>

theorem failed_analysis_keeps_report:
  assumes "r = Rejected \<or> (\<exists>res. r = Fulfilled res \<and> \<not> success res)
     \<or> (\<exists>res resp. r = Fulfilled res \<and> response res = Some resp \<and> status resp \<noteq> str ''success'')"
    and "csvData s \<noteq> []"
  shows "dashboardData (fst (analyzeTransactions_settled r t)) = dashboardData t
    \<and> insights (fst (analyzeTransactions_settled r t)) = insights t
    \<and> \<not> analyzing (fst (analyzeTransactions_settled r t))
    \<and> dashboardData (invoke analyzeTransactions analyzeTransactions_settled r s) = dashboardData s
    \<and> insights (invoke analyzeTransactions analyzeTransactions_settled r s) = insights s
    \<and> \<not> analyzing (invoke analyzeTransactions analyzeTransactions_settled r s)"
proof -
  have "dashboardData (fst (analyzeTransactions_settled r u)) = dashboardData u
    \<and> insights (fst (analyzeTransactions_settled r u)) = insights u
    \<and> \<not> analyzing (fst (analyzeTransactions_settled r u))" for u
    using analyzeTransactions_try_failed [OF assms(1), of u]
    by (auto simp: analyzeTransactions_settled_def)
  then show ?thesis
    using assms(2) by (simp add: invoke_analyzeTransactions)
qed

theorem failed_analysis_keeps_report_witness:
  "csvData analysed \<noteq> []
   \<and> dashboardData (invoke analyzeTransactions analyzeTransactions_settled Rejected analysed)
       = Some report_jan
   \<and> insights (invoke analyzeTransactions analyzeTransactions_settled Rejected analysed)
       = [str ''Dining is 40% of spend'']
   \<and> \<not> analyzing (invoke analyzeTransactions analyzeTransactions_settled Rejected analysed)
   \<and> \<not> success \<lparr>success = False, response = None :: report agent_response option\<rparr>
   \<and> dashboardData (invoke analyzeTransactions analyzeTransactions_settled
         (Fulfilled \<lparr>success = False, response = None\<rparr>) analysed) = Some report_jan
   \<and> status \<lparr>status = str ''error'', result = \<lparr>workflow_status = str ''failed'',
         dashboard_data = Some report_feb, query_response = None,
         response_insights = Some [str ''Travel doubled'']\<rparr>\<rparr> \<noteq> str ''success''
   \<and> dashboardData (invoke analyzeTransactions analyzeTransactions_settled
         (Fulfilled \<lparr>success = True, response = Some \<lparr>status = str ''error'',
            result = \<lparr>workflow_status = str ''failed'', dashboard_data = Some report_feb,
              query_response = None, response_insights = Some [str ''Travel doubled'']\<rparr>\<rparr>\<rparr>)
         analysed) = Some report_jan
   \<and> insights (invoke analyzeTransactions analyzeTransactions_settled
         (Fulfilled \<lparr>success = True, response = Some \<lparr>status = str ''error'',
            result = \<lparr>workflow_status = str ''failed'', dashboard_data = Some report_feb,
              query_response = None, response_insights = Some [str ''Travel doubled'']\<rparr>\<rparr>\<rparr>)
         analysed) = [str ''Dining is 40% of spend'']"
  using failed_analysis_keeps_report [of Rejected analysed analysed]
    failed_analysis_keeps_report
      [of "Fulfilled \<lparr>success = False, response = None\<rparr>" analysed analysed]
    failed_analysis_keeps_report
      [of "Fulfilled \<lparr>success = True, response = Some \<lparr>status = str ''error'',
            result = \<lparr>workflow_status = str ''failed'', dashboard_data = Some report_feb,
              query_response = None, response_insights = Some [str ''Travel doubled'']\<rparr>\<rparr>\<rparr>"
        analysed analysed]
  by (simp add: analysed_def csv_jan_def csv_text_def str_def)

text \<open>
  Claim C4, as the spec states it: every successful analysis call replaces the report by
  the \<open>dashboard_data\<close> of the payload and the insights list by the payload's
  insights. It fails for a successful call whose payload has no \<open>dashboard_data\<close>:
  the handler guards both setters with \<open>if (managerResponse.dashboard_data)\<close>, so
  the earlier report stays and the payload's insights are not stored.
\<close>

theorem successful_analysis_without_report_counterexample:
  "dashboardData (invoke analyzeTransactions analyzeTransactions_settled
       (succeeded \<lparr>workflow_status = str ''completed'', dashboard_data = None,
          query_response = None, response_insights = Some [str ''Travel doubled'']\<rparr>) analysed)
     \<noteq> dashboard_data \<lparr>workflow_status = str ''completed'', dashboard_data = None,
          query_response = None, response_insights = Some [str ''Travel doubled'']\<rparr>
   \<and> insights (invoke analyzeTransactions analyzeTransactions_settled
       (succeeded \<lparr>workflow_status = str ''completed'', dashboard_data = None,
          query_response = None, response_insights = Some [str ''Travel doubled'']\<rparr>) analysed)
     \<noteq> [str ''Travel doubled'']"
  by (simp add: invoke_def analyzeTransactions_def analyzeTransactions_settled_def
      analyzeTransactions_try_def succeeded_def analysed_def csv_jan_def csv_text_def str_def)

text \<open>
  Claim C4, amended: for every successful analysis call whose payload carries
  \<open>dashboard_data\<close>, the report becomes exactly that \<open>dashboard_data\<close>, whatever the
  earlier report was, and the insights list becomes the payload's insights, or the
  empty list when the payload has none; for a successful call whose payload carries no
  \<open>dashboard_data\<close>, report and insights stay as they were. Either way the loading
  flag and the stage label are cleared and nothing else changes.
\<close>

theorem successful_analysis_replaces_report:
  assumes "success res" and "response res = Some resp" and "status resp = str ''success''"
    and "csvData s \<noteq> []"
  shows "(dashboard_data (result resp) = Some d \<longrightarrow>
      fst (analyzeTransactions_settled (Fulfilled res) t)
        = t\<lparr>dashboardData := Some d,
            insights := (case response_insights (result resp) of None \<Rightarrow> [] | Some i \<Rightarrow> i),
            analyzing := False, analysisStage := []\<rparr>
      \<and> invoke analyzeTransactions analyzeTransactions_settled (Fulfilled res) s
        = s\<lparr>dashboardData := Some d,
            insights := (case response_insights (result resp) of None \<Rightarrow> [] | Some i \<Rightarrow> i),
            analyzing := False, analysisStage := []\<rparr>)
    \<and> (dashboard_data (result resp) = None \<longrightarrow>
      fst (analyzeTransactions_settled (Fulfilled res) t)
        = t\<lparr>analyzing := False, analysisStage := []\<rparr>
      \<and> invoke analyzeTransactions analyzeTransactions_settled (Fulfilled res) s
        = s\<lparr>analyzing := False, analysisStage := []\<rparr>)"
proof -
  have some: "fst (analyzeTransactions_settled (Fulfilled res) u)
        = u\<lparr>dashboardData := Some d,
            insights := (case response_insights (result resp) of None \<Rightarrow> [] | Some i \<Rightarrow> i),
            analyzing := False, analysisStage := []\<rparr>"
    if "dashboard_data (result resp) = Some d" for u
    using assms(1-3) that
    by (simp add: analyzeTransactions_settled_def analyzeTransactions_try_def split: option.split)
  have none: "fst (analyzeTransactions_settled (Fulfilled res) u)
        = u\<lparr>analyzing := False, analysisStage := []\<rparr>"
    if "dashboard_data (result resp) = None" for u
    using assms(1-3) that
    by (simp add: analyzeTransactions_settled_def analyzeTransactions_try_def)
  show ?thesis
    using assms(4) by (simp add: invoke_analyzeTransactions some none)
qed

theorem successful_analysis_replaces_report_witness:
  "csvData analysed \<noteq> []
   \<and> invoke analyzeTransactions analyzeTransactions_settled
       (succeeded \<lparr>workflow_status = str ''completed'', dashboard_data = Some report_feb,
          query_response = None, response_insights = Some [str ''Travel doubled'']\<rparr>) analysed
     = analysed\<lparr>dashboardData := Some report_feb, insights := [str ''Travel doubled'']\<rparr>
   \<and> invoke analyzeTransactions analyzeTransactions_settled
       (succeeded \<lparr>workflow_status = str ''completed'', dashboard_data = Some report_feb,
          query_response = None, response_insights = None\<rparr>) analysed
     = analysed\<lparr>dashboardData := Some report_feb, insights := []\<rparr>
   \<and> invoke analyzeTransactions analyzeTransactions_settled
       (succeeded \<lparr>workflow_status = str ''completed'', dashboard_data = None,
          query_response = None, response_insights = Some [str ''Travel doubled'']\<rparr>) analysed
     = analysed"
  using successful_analysis_replaces_report
      [of "\<lparr>success = True, response = Some \<lparr>status = str ''success'',
            result = \<lparr>workflow_status = str ''completed'', dashboard_data = Some report_feb,
              query_response = None, response_insights = Some [str ''Travel doubled'']\<rparr>\<rparr>\<rparr>"
        "\<lparr>status = str ''success'',
            result = \<lparr>workflow_status = str ''completed'', dashboard_data = Some report_feb,
              query_response = None, response_insights = Some [str ''Travel doubled'']\<rparr>\<rparr>"
        analysed report_feb analysed]
    successful_analysis_replaces_report
      [of "\<lparr>success = True, response = Some \<lparr>status = str ''success'',
            result = \<lparr>workflow_status = str ''completed'', dashboard_data = Some report_feb,
              query_response = None, response_insights = None\<rparr>\<rparr>\<rparr>"
        "\<lparr>status = str ''success'',
            result = \<lparr>workflow_status = str ''completed'', dashboard_data = Some report_feb,
              query_response = None, response_insights = None\<rparr>\<rparr>"
        analysed report_feb analysed]
    successful_analysis_replaces_report
      [of "\<lparr>success = True, response = Some \<lparr>status = str ''success'',
            result = \<lparr>workflow_status = str ''completed'', dashboard_data = None,
              query_response = None, response_insights = Some [str ''Travel doubled'']\<rparr>\<rparr>\<rparr>"
        "\<lparr>status = str ''success'',
            result = \<lparr>workflow_status = str ''completed'', dashboard_data = None,
              query_response = None, response_insights = Some [str ''Travel doubled'']\<rparr>\<rparr>"
        analysed report_feb analysed]
  by (simp add: succeeded_def analysed_def initial_def csv_jan_def csv_text_def str_def)

section \<open>Chat\<close>

lemma invoke_handleSendMessage:
  "trim (chatInput s) \<noteq> [] \<Longrightarrow> dashboardData s \<noteq> None \<Longrightarrow>
   invoke handleSendMessage handleSendMessage_settled r s =
     fst (handleSendMessage_settled r
       (s\<lparr>chatMessages := chatMessages s @ [\<lparr>role = User, content = chatInput s\<rparr>],
          chatInput := [], chatLoading := True\<rparr>))"
  by (auto simp: invoke_def handleSendMessage_def Let_def)

text \<open>
  Claim C5, as the spec states it: a non-empty question with a report present appends
  one user turn, and a successful response then appends one assistant turn whose
  content is \<open>query_response\<close>, or \<open>'Analysis complete.'\<close> when \<open>query_response\<close> is
  absent. It fails twice: a question of spaces only is non-empty, yet the guard
  \<open>!chatInput.trim()\<close> returns before anything is appended; and an empty
  \<open>query_response\<close> is present, yet \<open>||\<close> replaces it by the fallback.
\<close>

theorem chat_blank_question_or_empty_answer_counterexample:
  "chatInput (analysed\<lparr>chatInput := str ''  ''\<rparr>) \<noteq> []
   \<and> dashboardData (analysed\<lparr>chatInput := str ''  ''\<rparr>) \<noteq> None
   \<and> chatMessages (fst (handleSendMessage (analysed\<lparr>chatInput := str ''  ''\<rparr>)))
       \<noteq> chatMessages (analysed\<lparr>chatInput := str ''  ''\<rparr>) @ [\<lparr>role = User, content = str ''  ''\<rparr>]
   \<and> query_response \<lparr>workflow_status = str ''completed'', dashboard_data = None :: report option,
         query_response = Some [], response_insights = None\<rparr> = Some []
   \<and> chatMessages (invoke handleSendMessage handleSendMessage_settled
         (succeeded \<lparr>workflow_status = str ''completed'', dashboard_data = None,
            query_response = Some [], response_insights = None\<rparr>)
         (analysed\<lparr>chatInput := str ''What was my total travel spend?''\<rparr>))
       \<noteq> [\<lparr>role = User, content = str ''What was my total travel spend?''\<rparr>,
           \<lparr>role = Assistant, content = []\<rparr>]"
  by (simp add: invoke_def handleSendMessage_def handleSendMessage_settled_def
      handleSendMessage_try_def or_string_def succeeded_def analysed_def initial_def trim_def
      isWhiteSpace_def str_def)

text \<open>
  Claim C5, amended: for every chat invocation whose question has a character that is
  not white space and with a report present, one user turn with the question text as
  typed is appended and the agent call is made; when the call returns a successful
  response, one assistant turn is appended to the transcript as it then is, whose
  content is \<open>query_response\<close> when that is present and not empty, and
  \<open>'Analysis complete.'\<close> otherwise. With no other event in between, the transcript
  grows by exactly these two turns, in this order.
\<close>

theorem chat_appends_user_then_assistant:
  assumes "trim (chatInput s) \<noteq> []" and "dashboardData s \<noteq> None"
    and "success res" and "response res = Some resp" and "status resp = str ''success''"
  shows "handleSendMessage s
      = (s\<lparr>chatMessages := chatMessages s @ [\<lparr>role = User, content = chatInput s\<rparr>],
           chatInput := [], chatLoading := True\<rparr>,
         [CallAIAgent
            (str ''Based on the analyzed transaction data, answer this query: '' @ chatInput s)
            FINOS_MANAGER_AGENT_ID])
    \<and> chatMessages (fst (handleSendMessage_settled (Fulfilled res) t))
      = chatMessages t
        @ [\<lparr>role = Assistant,
            content = (case query_response (result resp) of
                         None \<Rightarrow> str ''Analysis complete.''
                       | Some q \<Rightarrow> if q = [] then str ''Analysis complete.'' else q)\<rparr>]
    \<and> chatMessages (invoke handleSendMessage handleSendMessage_settled (Fulfilled res) s)
      = chatMessages s
        @ [\<lparr>role = User, content = chatInput s\<rparr>,
           \<lparr>role = Assistant,
            content = (case query_response (result resp) of
                         None \<Rightarrow> str ''Analysis complete.''
                       | Some q \<Rightarrow> if q = [] then str ''Analysis complete.'' else q)\<rparr>]"
proof -
  have start: "handleSendMessage s
      = (s\<lparr>chatMessages := chatMessages s @ [\<lparr>role = User, content = chatInput s\<rparr>],
           chatInput := [], chatLoading := True\<rparr>,
         [CallAIAgent
            (str ''Based on the analyzed transaction data, answer this query: '' @ chatInput s)
            FINOS_MANAGER_AGENT_ID])"
    using assms(1,2) by (auto simp: handleSendMessage_def Let_def)
  have settled: "chatMessages (fst (handleSendMessage_settled (Fulfilled res) u))
      = chatMessages u
        @ [\<lparr>role = Assistant,
            content = (case query_response (result resp) of
                         None \<Rightarrow> str ''Analysis complete.''
                       | Some q \<Rightarrow> if q = [] then str ''Analysis complete.'' else q)\<rparr>]" for u
    using assms(3-5)
    by (simp add: handleSendMessage_settled_def handleSendMessage_try_def or_string_def Let_def)
  show ?thesis
    by (simp only: start settled invoke_handleSendMessage [OF assms(1,2)]) simp
qed

theorem chat_appends_user_then_assistant_witness:
  "trim (chatInput (analysed\<lparr>chatInput := str ''Travel spend? ''\<rparr>)) \<noteq> []
   \<and> dashboardData (analysed\<lparr>chatInput := str ''Travel spend? ''\<rparr>) \<noteq> None
   \<and> chatMessages (invoke handleSendMessage handleSendMessage_settled
         (succeeded \<lparr>workflow_status = str ''completed'', dashboard_data = None,
            query_response = Some (str ''You spent 40 on travel.''), response_insights = None\<rparr>)
         (analysed\<lparr>chatInput := str ''Travel spend? ''\<rparr>))
       = [\<lparr>role = User, content = str ''Travel spend? ''\<rparr>,
          \<lparr>role = Assistant, content = str ''You spent 40 on travel.''\<rparr>]
   \<and> chatMessages (invoke handleSendMessage handleSendMessage_settled
         (succeeded \<lparr>workflow_status = str ''completed'', dashboard_data = None,
            query_response = None, response_insights = None\<rparr>)
         (analysed\<lparr>chatInput := str ''Travel spend? ''\<rparr>))
       = [\<lparr>role = User, content = str ''Travel spend? ''\<rparr>,
          \<lparr>role = Assistant, content = str ''Analysis complete.''\<rparr>]"
  using chat_appends_user_then_assistant
      [of "analysed\<lparr>chatInput := str ''Travel spend? ''\<rparr>"
        "\<lparr>success = True, response = Some \<lparr>status = str ''success'',
            result = \<lparr>workflow_status = str ''completed'', dashboard_data = None,
              query_response = Some (str ''You spent 40 on travel.''),
              response_insights = None\<rparr>\<rparr>\<rparr>"
        "\<lparr>status = str ''success'',
            result = \<lparr>workflow_status = str ''completed'', dashboard_data = None,
              query_response = Some (str ''You spent 40 on travel.''),
              response_insights = None\<rparr>\<rparr>" analysed]
    chat_appends_user_then_assistant
      [of "analysed\<lparr>chatInput := str ''Travel spend? ''\<rparr>"
        "\<lparr>success = True, response = Some \<lparr>status = str ''success'',
            result = \<lparr>workflow_status = str ''completed'', dashboard_data = None,
              query_response = None, response_insights = None\<rparr>\<rparr>\<rparr>"
        "\<lparr>status = str ''success'',
            result = \<lparr>workflow_status = str ''completed'', dashboard_data = None,
              query_response = None, response_insights = None\<rparr>\<rparr>" analysed]
  by (simp add: succeeded_def analysed_def initial_def trim_def isWhiteSpace_def str_def)

text \<open>
  Claim C2: when the agent call of a chat invocation throws, one fixed assistant turn
  with an error message is appended. The code does not do this: the \<open>catch\<close> block
  only logs, so the transcript ends with the user's turn. The \<open>else\<close> branch of the
  same handler, taken when the call returns without success, does append the fixed
  error turn. Both are evaluated here on the question "What was my total travel
  spend?".
\<close>

theorem rejected_chat_call_appends_no_assistant_turn:
  "chatMessages (invoke handleSendMessage handleSendMessage_settled Rejected
       (analysed\<lparr>chatInput := str ''What was my total travel spend?''\<rparr>))
     = [\<lparr>role = User, content = str ''What was my total travel spend?''\<rparr>]
   \<and> chatMessages (invoke handleSendMessage handleSendMessage_settled
       (Fulfilled \<lparr>success = False, response = None\<rparr>)
       (analysed\<lparr>chatInput := str ''What was my total travel spend?''\<rparr>))
     = [\<lparr>role = User, content = str ''What was my total travel spend?''\<rparr>,
        \<lparr>role = Assistant,
         content = str ''Sorry, I encountered an error processing your query.''\<rparr>]"
  by (simp add: invoke_def handleSendMessage_def handleSendMessage_settled_def
      handleSendMessage_try_def errorMessage_def analysed_def initial_def trim_def
      isWhiteSpace_def str_def)

end
